theory Spec2Isabelle
  imports Main
begin

section \<open>Python values, exception classes and exception objects\<close>

text \<open>
  The library stores arbitrary Python objects in a Result and asks of them only whether they
  are instances of \<open>Exception\<close> (\<open>isinstance(self._held, Exception)\<close>) and whether a raised
  object matches an \<open>except\<close> clause. Exception classes are modelled with the part of
  Python's built-in hierarchy the library touches, the classes the two modules declare
  (\<open>UnwrapError\<close>, \<open>ErrorWrapper\<close> and \<open>Propagation\<close> of \<open>simple_monads.result\<close>;
  \<open>UnwrapError\<close> and \<open>ErrorWrapper\<close> of \<open>pyadt.result\<close>, which are distinct class
  objects), and user classes with one base.
\<close>

datatype exc_class =
    BaseException
  | Exception
  | KeyboardInterrupt
  | SystemExit
  | AttributeError
  | TypeError
  | ValueError
  | UnwrapError
  | ErrorWrapper
  | Propagation
  | Pyadt_UnwrapError
  | Pyadt_ErrorWrapper
  | UserClass string exc_class

text \<open>The method resolution order of a class: the class itself, then its bases up to the root.\<close>

fun mro :: "exc_class \<Rightarrow> exc_class list" where
  "mro BaseException = [BaseException]"
| "mro Exception = [Exception, BaseException]"
| "mro KeyboardInterrupt = [KeyboardInterrupt, BaseException]"
| "mro SystemExit = [SystemExit, BaseException]"
| "mro AttributeError = [AttributeError, Exception, BaseException]"
| "mro TypeError = [TypeError, Exception, BaseException]"
| "mro ValueError = [ValueError, Exception, BaseException]"
| "mro UnwrapError = [UnwrapError, Exception, BaseException]"
| "mro ErrorWrapper = [ErrorWrapper, Exception, BaseException]"
| "mro Propagation = [Propagation, Exception, BaseException]"
| "mro Pyadt_UnwrapError = [Pyadt_UnwrapError, Exception, BaseException]"
| "mro Pyadt_ErrorWrapper = [Pyadt_ErrorWrapper, Exception, BaseException]"
| "mro (UserClass n base) = UserClass n base # mro base"

definition issubclass :: "exc_class \<Rightarrow> exc_class \<Rightarrow> bool" where
  "issubclass c d = (d \<in> set (mro c))"

text \<open>
  A Python object is \<open>None\<close>, a bool, an int, a str or an exception instance. An exception
  instance has its class, its \<open>args\<close>, its \<open>__cause__\<close> (set by \<open>raise ... from\<close>) and, for
  \<open>Propagation\<close>, the attribute \<open>err\<close> that its \<open>__init__\<close> stores. Tracebacks and
  \<open>__context__\<close> are not modelled.
\<close>

datatype pyval =
    PyNone
  | PyBool bool
  | PyInt int
  | PyStr string
  | PyExc exn
and exn =
    Exn (exc_class: exc_class) (exc_args: "pyval list") (exc_cause: "exn option")
        (exc_err: "pyval option")

fun isinstance :: "pyval \<Rightarrow> exc_class \<Rightarrow> bool" where
  "isinstance (PyExc x) c = issubclass (exc_class x) c"
| "isinstance v c = False"

text \<open>The constructor calls \<open>UnwrapError(msg)\<close>, \<open>ErrorWrapper(held)\<close> and \<open>Propagation(err)\<close>.\<close>

definition new_UnwrapError :: "string \<Rightarrow> exn option \<Rightarrow> exn" where
  "new_UnwrapError msg cause = Exn UnwrapError [PyStr msg] cause None"

definition new_ErrorWrapper :: "pyval \<Rightarrow> exn" where
  "new_ErrorWrapper held = Exn ErrorWrapper [held] None None"

definition new_Propagation :: "pyval \<Rightarrow> exn" where
  "new_Propagation err =
     Exn Propagation
       [PyStr (''Uncaught Propogation, did you forget to decorate '' @
               ''function with @simple_monads.result.stop?'')]
       None (Some err)"

section \<open>Computations: state, normal return, raised exception\<close>

text \<open>
  A callable of the program is a function from its arguments to a computation. A computation
  runs in a state of type \<open>'s\<close> (whatever the callbacks read and write: a counter, a log) and
  ends by returning a value or by raising an exception, in a new state. Callbacks are
  arbitrary such computations.
\<close>

datatype 'a outcome = Returns 'a | Raises exn

type_synonym ('s, 'a) py = "'s \<Rightarrow> 'a outcome \<times> 's"

definition py_return :: "'a \<Rightarrow> ('s, 'a) py" where
  "py_return v s = (Returns v, s)"

definition py_raise :: "exn \<Rightarrow> ('s, 'a) py" where
  "py_raise x s = (Raises x, s)"

text \<open>\<open>py_bind m k\<close>: evaluate \<open>m\<close>, then continue with \<open>k\<close> on its value; an exception of
  \<open>m\<close> skips \<open>k\<close>.\<close>

definition py_bind :: "('s, 'a) py \<Rightarrow> ('a \<Rightarrow> ('s, 'b) py) \<Rightarrow> ('s, 'b) py" where
  "py_bind m k s =
     (case m s of
        (Returns v, s') \<Rightarrow> k v s'
      | (Raises x, s') \<Rightarrow> (Raises x, s'))"

text \<open>\<open>raise v\<close> for an arbitrary object: Python refuses what is not an exception.\<close>

fun raise_value :: "pyval \<Rightarrow> ('s, 'a) py" where
  "raise_value (PyExc x) = py_raise x"
| "raise_value v =
     py_raise (Exn TypeError [PyStr ''exceptions must derive from BaseException''] None None)"

text \<open>The operand of an \<open>except\<close> clause: one class or a tuple of classes.\<close>

datatype catch_spec = OneClass exc_class | ClassTuple "exc_class list"

fun catches :: "catch_spec \<Rightarrow> exn \<Rightarrow> bool" where
  "catches (OneClass c) x = issubclass (exc_class x) c"
| "catches (ClassTuple cs) x = list_ex (issubclass (exc_class x)) cs"

text \<open>\<open>try: body except <matching> as e: handler e\<close>.\<close>

definition try_except ::
  "('s, 'a) py \<Rightarrow> (exn \<Rightarrow> bool) \<Rightarrow> (exn \<Rightarrow> ('s, 'a) py) \<Rightarrow> ('s, 'a) py" where
  "try_except body matching handler s =
     (case body s of
        (Returns v, s') \<Rightarrow> (Returns v, s')
      | (Raises x, s') \<Rightarrow> if matching x then handler x s' else (Raises x, s'))"

text \<open>\<open>msg or default\<close> for \<open>msg: str | None\<close>: \<open>None\<close> and the empty string are falsy.\<close>

fun str_or :: "string option \<Rightarrow> string \<Rightarrow> string" where
  "str_or None d = d"
| "str_or (Some m) d = (if m = [] then d else m)"

section \<open>The optional-value collaborator\<close>

text \<open>
  Modelled from the spec: the module \<open>maybe\<close> (classes \<open>Something\<close> and \<open>Nothing\<close>), which
  \<open>ok\<close> and \<open>err\<close> import, is not among the source files. The spec describes it as two
  variants, present(value) and absent.
\<close>

datatype 'a maybe = Nothing | Something 'a

section \<open>Module \<open>simple_monads.result\<close>\<close>

datatype ('t, 'e) result = Error 'e | Success 't

text \<open>\<open>__bool__\<close>\<close>

fun truthy :: "('t, 'e) result \<Rightarrow> bool" where
  "truthy (Error held) = False"
| "truthy (Success held) = True"

fun is_ok :: "('t, 'e) result \<Rightarrow> bool" where
  "is_ok (Error held) = False"
| "is_ok (Success held) = True"

fun is_err :: "('t, 'e) result \<Rightarrow> bool" where
  "is_err (Error held) = True"
| "is_err (Success held) = False"

text \<open>Lines 210 to 214 of \<open>Error.unwrap\<close>: the exception the \<open>UnwrapError\<close> is raised from.\<close>

definition unwrap_cause :: "pyval \<Rightarrow> exn" where
  "unwrap_cause held =
     (case held of
        PyExc x \<Rightarrow> if isinstance held Exception then x else new_ErrorWrapper held
      | _ \<Rightarrow> new_ErrorWrapper held)"

fun unwrap :: "('t, pyval) result \<Rightarrow> string option \<Rightarrow> ('s, 't) py" where
  "unwrap (Error held) msg =
     py_raise (new_UnwrapError (str_or msg ''Attempted to unwrap an Error'')
                 (Some (unwrap_cause held)))"
| "unwrap (Success held) msg = py_return held"

fun unwrap_or :: "('t, 'e) result \<Rightarrow> 't \<Rightarrow> 't" where
  "unwrap_or (Error held) fallback = fallback"
| "unwrap_or (Success held) fallback = held"

fun unwrap_or_else :: "('t, 'e) result \<Rightarrow> ('s, 't) py \<Rightarrow> ('s, 't) py" where
  "unwrap_or_else (Error held) fallback = fallback"
| "unwrap_or_else (Success held) fallback = py_return held"

fun unwrap_err :: "('t, 'e) result \<Rightarrow> string option \<Rightarrow> ('s, 'e) py" where
  "unwrap_err (Error held) msg = py_return held"
| "unwrap_err (Success held) msg =
     py_raise (new_UnwrapError
       (case msg of None \<Rightarrow> ''Attempted to unwrap the error from a Success'' | Some m \<Rightarrow> m)
       None)"

fun map_res :: "('t, 'e) result \<Rightarrow> ('t \<Rightarrow> ('s, 'u) py) \<Rightarrow> ('s, ('u, 'e) result) py" where
  "map_res (Error held) cb = py_return (Error held)"
| "map_res (Success held) cb = py_bind (cb held) (\<lambda>u. py_return (Success u))"

fun map_err :: "('t, 'e) result \<Rightarrow> ('e \<Rightarrow> ('s, 'f) py) \<Rightarrow> ('s, ('t, 'f) result) py" where
  "map_err (Error held) cb = py_bind (cb held) (\<lambda>u. py_return (Error u))"
| "map_err (Success held) cb = py_return (Success held)"

fun map_or :: "('t, 'e) result \<Rightarrow> 'u \<Rightarrow> ('t \<Rightarrow> ('s, 'u) py) \<Rightarrow> ('s, 'u) py" where
  "map_or (Error held) dflt cb = py_return dflt"
| "map_or (Success held) dflt cb = cb held"

fun map_or_else :: "('t, 'e) result \<Rightarrow> ('s, 'u) py \<Rightarrow> ('t \<Rightarrow> ('s, 'u) py) \<Rightarrow> ('s, 'u) py" where
  "map_or_else (Error held) dflt cb = dflt"
| "map_or_else (Success held) dflt cb = cb held"

fun and_then ::
  "('t, 'e) result \<Rightarrow> ('t \<Rightarrow> ('s, ('u, 'e) result) py) \<Rightarrow> ('s, ('u, 'e) result) py" where
  "and_then (Error held) cb = py_return (Error held)"
| "and_then (Success held) cb = cb held"

fun or_else ::
  "('t, 'e) result \<Rightarrow> ('e \<Rightarrow> ('s, ('t, 'f) result) py) \<Rightarrow> ('s, ('t, 'f) result) py" where
  "or_else (Error held) cb = cb held"
| "or_else (Success held) cb = py_return (Success held)"

fun err :: "('t, 'e) result \<Rightarrow> 'e maybe" where
  "err (Error held) = Something held"
| "err (Success held) = Nothing"

fun ok :: "('t, 'e) result \<Rightarrow> 't maybe" where
  "ok (Error held) = Nothing"
| "ok (Success held) = Something held"

fun propagate :: "('t, pyval) result \<Rightarrow> ('s, 't) py" where
  "propagate (Error held) = py_raise (new_Propagation held)"
| "propagate (Success held) = py_return held"

text \<open>The default of \<open>wrap_result\<close>'s parameter \<open>catch\<close>.\<close>

definition catch_default :: catch_spec where
  "catch_default = OneClass Exception"

definition wrap_result ::
  "catch_spec \<Rightarrow> ('p \<Rightarrow> ('s, 'r) py) \<Rightarrow> 'p \<Rightarrow> ('s, ('r, pyval) result) py" where
  "wrap_result catch f args =
     try_except (py_bind (f args) (\<lambda>r. py_return (Success r)))
       (catches catch)
       (\<lambda>e. py_return (Error (PyExc e)))"

definition unwrap_result ::
  "('p \<Rightarrow> ('s, ('r, pyval) result) py) \<Rightarrow> 'p \<Rightarrow> ('s, 'r) py" where
  "unwrap_result f args =
     py_bind (f args) (\<lambda>result.
       if is_ok result then unwrap result None
       else py_bind (unwrap_err result None) (\<lambda>err.
         if isinstance err Exception then raise_value err
         else py_raise (new_ErrorWrapper err)))"

text \<open>\<open>e.err\<close> in the handler of \<open>stop\<close>: an attribute read, which raises \<open>AttributeError\<close>
  on an object that has no such attribute.\<close>

definition get_err :: "exn \<Rightarrow> ('s, pyval) py" where
  "get_err x =
     (case exc_err x of
        Some v \<Rightarrow> py_return v
      | None \<Rightarrow> py_raise (Exn AttributeError [PyStr ''err''] None None))"

definition stop :: "('p \<Rightarrow> ('s, 'r) py) \<Rightarrow> 'p \<Rightarrow> ('s, ('r, pyval) result) py" where
  "stop f args =
     try_except (py_bind (f args) (\<lambda>r. py_return (Success r)))
       (catches (OneClass Propagation))
       (\<lambda>e. py_bind (get_err e) (\<lambda>v. py_return (Error v)))"

section \<open>Module \<open>pyadt.result\<close>\<close>

text \<open>
  The second module declares its own classes \<open>Success\<close>, \<open>Error\<close>, \<open>UnwrapError\<close> and
  \<open>ErrorWrapper\<close>; it has no \<open>Propagation\<close>, \<open>propagate\<close> or \<open>stop\<close>.
\<close>

datatype ('t, 'e) pyadt_result = Pyadt_Error 'e | Pyadt_Success 't

definition pyadt_new_UnwrapError :: "string \<Rightarrow> exn option \<Rightarrow> exn" where
  "pyadt_new_UnwrapError msg cause = Exn Pyadt_UnwrapError [PyStr msg] cause None"

definition pyadt_new_ErrorWrapper :: "pyval \<Rightarrow> exn" where
  "pyadt_new_ErrorWrapper held = Exn Pyadt_ErrorWrapper [held] None None"

fun pyadt_truthy :: "('t, 'e) pyadt_result \<Rightarrow> bool" where
  "pyadt_truthy (Pyadt_Error held) = False"
| "pyadt_truthy (Pyadt_Success held) = True"

fun pyadt_is_ok :: "('t, 'e) pyadt_result \<Rightarrow> bool" where
  "pyadt_is_ok (Pyadt_Error held) = False"
| "pyadt_is_ok (Pyadt_Success held) = True"

fun pyadt_is_err :: "('t, 'e) pyadt_result \<Rightarrow> bool" where
  "pyadt_is_err (Pyadt_Error held) = True"
| "pyadt_is_err (Pyadt_Success held) = False"

definition pyadt_unwrap_cause :: "pyval \<Rightarrow> exn" where
  "pyadt_unwrap_cause held =
     (case held of
        PyExc x \<Rightarrow> if isinstance held Exception then x else pyadt_new_ErrorWrapper held
      | _ \<Rightarrow> pyadt_new_ErrorWrapper held)"

fun pyadt_unwrap :: "('t, pyval) pyadt_result \<Rightarrow> string option \<Rightarrow> ('s, 't) py" where
  "pyadt_unwrap (Pyadt_Error held) msg =
     py_raise (pyadt_new_UnwrapError (str_or msg ''Attempted to unwrap an Error'')
                 (Some (pyadt_unwrap_cause held)))"
| "pyadt_unwrap (Pyadt_Success held) msg = py_return held"

fun pyadt_unwrap_or :: "('t, 'e) pyadt_result \<Rightarrow> 't \<Rightarrow> 't" where
  "pyadt_unwrap_or (Pyadt_Error held) fallback = fallback"
| "pyadt_unwrap_or (Pyadt_Success held) fallback = held"

fun pyadt_unwrap_or_else :: "('t, 'e) pyadt_result \<Rightarrow> ('s, 't) py \<Rightarrow> ('s, 't) py" where
  "pyadt_unwrap_or_else (Pyadt_Error held) fallback = fallback"
| "pyadt_unwrap_or_else (Pyadt_Success held) fallback = py_return held"

fun pyadt_unwrap_err :: "('t, 'e) pyadt_result \<Rightarrow> string option \<Rightarrow> ('s, 'e) py" where
  "pyadt_unwrap_err (Pyadt_Error held) msg = py_return held"
| "pyadt_unwrap_err (Pyadt_Success held) msg =
     py_raise (pyadt_new_UnwrapError
       (case msg of None \<Rightarrow> ''Attempted to unwrap the error from a Success'' | Some m \<Rightarrow> m)
       None)"

fun pyadt_map ::
  "('t, 'e) pyadt_result \<Rightarrow> ('t \<Rightarrow> ('s, 'u) py) \<Rightarrow> ('s, ('u, 'e) pyadt_result) py" where
  "pyadt_map (Pyadt_Error held) cb = py_return (Pyadt_Error held)"
| "pyadt_map (Pyadt_Success held) cb = py_bind (cb held) (\<lambda>u. py_return (Pyadt_Success u))"

fun pyadt_map_err ::
  "('t, 'e) pyadt_result \<Rightarrow> ('e \<Rightarrow> ('s, 'f) py) \<Rightarrow> ('s, ('t, 'f) pyadt_result) py" where
  "pyadt_map_err (Pyadt_Error held) cb = py_bind (cb held) (\<lambda>u. py_return (Pyadt_Error u))"
| "pyadt_map_err (Pyadt_Success held) cb = py_return (Pyadt_Success held)"

fun pyadt_map_or :: "('t, 'e) pyadt_result \<Rightarrow> 'u \<Rightarrow> ('t \<Rightarrow> ('s, 'u) py) \<Rightarrow> ('s, 'u) py" where
  "pyadt_map_or (Pyadt_Error held) dflt cb = py_return dflt"
| "pyadt_map_or (Pyadt_Success held) dflt cb = cb held"

fun pyadt_map_or_else ::
  "('t, 'e) pyadt_result \<Rightarrow> ('s, 'u) py \<Rightarrow> ('t \<Rightarrow> ('s, 'u) py) \<Rightarrow> ('s, 'u) py" where
  "pyadt_map_or_else (Pyadt_Error held) dflt cb = dflt"
| "pyadt_map_or_else (Pyadt_Success held) dflt cb = cb held"

fun pyadt_and_then ::
  "('t, 'e) pyadt_result \<Rightarrow> ('t \<Rightarrow> ('s, ('u, 'e) pyadt_result) py) \<Rightarrow>
     ('s, ('u, 'e) pyadt_result) py" where
  "pyadt_and_then (Pyadt_Error held) cb = py_return (Pyadt_Error held)"
| "pyadt_and_then (Pyadt_Success held) cb = cb held"

fun pyadt_or_else ::
  "('t, 'e) pyadt_result \<Rightarrow> ('e \<Rightarrow> ('s, ('t, 'f) pyadt_result) py) \<Rightarrow>
     ('s, ('t, 'f) pyadt_result) py" where
  "pyadt_or_else (Pyadt_Error held) cb = cb held"
| "pyadt_or_else (Pyadt_Success held) cb = py_return (Pyadt_Success held)"

fun pyadt_err :: "('t, 'e) pyadt_result \<Rightarrow> 'e maybe" where
  "pyadt_err (Pyadt_Error held) = Something held"
| "pyadt_err (Pyadt_Success held) = Nothing"

fun pyadt_ok :: "('t, 'e) pyadt_result \<Rightarrow> 't maybe" where
  "pyadt_ok (Pyadt_Error held) = Nothing"
| "pyadt_ok (Pyadt_Success held) = Something held"

definition pyadt_wrap_result ::
  "catch_spec \<Rightarrow> ('p \<Rightarrow> ('s, 'r) py) \<Rightarrow> 'p \<Rightarrow> ('s, ('r, pyval) pyadt_result) py" where
  "pyadt_wrap_result catch f args =
     try_except (py_bind (f args) (\<lambda>r. py_return (Pyadt_Success r)))
       (catches catch)
       (\<lambda>e. py_return (Pyadt_Error (PyExc e)))"

definition pyadt_unwrap_result ::
  "('p \<Rightarrow> ('s, ('r, pyval) pyadt_result) py) \<Rightarrow> 'p \<Rightarrow> ('s, 'r) py" where
  "pyadt_unwrap_result f args =
     py_bind (f args) (\<lambda>r.
       if pyadt_is_ok r then pyadt_unwrap r None
       else py_bind (pyadt_unwrap_err r None) (\<lambda>e.
         if isinstance e Exception then raise_value e
         else py_raise (pyadt_new_ErrorWrapper e)))"

section \<open>Relating the two modules\<close>

text \<open>
  A value of one module corresponds to the value of the other built from the class of the
  same name. \<open>to_simple\<close> reads a \<open>pyadt\<close> Result as the \<open>simple_monads\<close> Result with the
  same variant and payload; \<open>unify_exn\<close> renames, everywhere in an exception object, the
  exception classes of \<open>pyadt\<close> to the \<open>simple_monads\<close> classes of the same name.
\<close>

fun to_simple :: "('t, 'e) pyadt_result \<Rightarrow> ('t, 'e) result" where
  "to_simple (Pyadt_Error held) = Error held"
| "to_simple (Pyadt_Success held) = Success held"

fun unify_class :: "exc_class \<Rightarrow> exc_class" where
  "unify_class Pyadt_UnwrapError = UnwrapError"
| "unify_class Pyadt_ErrorWrapper = ErrorWrapper"
| "unify_class (UserClass n base) = UserClass n (unify_class base)"
| "unify_class c = c"

fun unify_val :: "pyval \<Rightarrow> pyval" and unify_exn :: "exn \<Rightarrow> exn" where
  "unify_val (PyExc x) = PyExc (unify_exn x)"
| "unify_val PyNone = PyNone"
| "unify_val (PyBool b) = PyBool b"
| "unify_val (PyInt i) = PyInt i"
| "unify_val (PyStr t) = PyStr t"
| "unify_exn (Exn c args cause e) =
     Exn (unify_class c) (map unify_val args) (map_option unify_exn cause)
       (map_option unify_val e)"

text \<open>The outcome of a call with the raised exception's classes unified and the returned
  value read through \<open>f\<close>.\<close>

fun unify_outcome :: "('a \<Rightarrow> 'b) \<Rightarrow> 'a outcome \<times> 's \<Rightarrow> 'b outcome \<times> 's" where
  "unify_outcome f (Returns v, s) = (Returns (f v), s)"
| "unify_outcome f (Raises x, s) = (Raises (unify_exn x), s)"

text \<open>A computation with its returned value read through \<open>f\<close>; what it raises is untouched.\<close>

definition on_return :: "('a \<Rightarrow> 'b) \<Rightarrow> ('s, 'a) py \<Rightarrow> ('s, 'b) py" where
  "on_return f m = py_bind m (\<lambda>v. py_return (f v))"

section \<open>Basic facts about computations\<close>

lemma py_bind_return [simp]: "py_bind (py_return v) k s = k v s"
  by (simp add: py_bind_def py_return_def)

lemma py_bind_raise [simp]: "py_bind (py_raise x) k s = (Raises x, s)"
  by (simp add: py_bind_def py_raise_def)

lemma py_bind_Returns: "m s = (Returns v, s') \<Longrightarrow> py_bind m k s = k v s'"
  by (simp add: py_bind_def)

lemma py_bind_Raises: "m s = (Raises x, s') \<Longrightarrow> py_bind m k s = (Raises x, s')"
  by (simp add: py_bind_def)

lemma try_except_Returns:
  "body s = (Returns v, s') \<Longrightarrow> try_except body matching handler s = (Returns v, s')"
  by (simp add: try_except_def)

lemma try_except_caught:
  "body s = (Raises x, s') \<Longrightarrow> matching x \<Longrightarrow>
     try_except body matching handler s = handler x s'"
  by (simp add: try_except_def)

lemma try_except_passed:
  "body s = (Raises x, s') \<Longrightarrow> \<not> matching x \<Longrightarrow>
     try_except body matching handler s = (Raises x, s')"
  by (simp add: try_except_def)

lemma issubclass_refl [simp]: "issubclass c c"
  by (cases c) (simp_all add: issubclass_def)

lemma isinstance_Exception_cases:
  "isinstance v Exception \<Longrightarrow> \<exists>x. v = PyExc x \<and> issubclass (exc_class x) Exception"
  by (cases v) simp_all

section \<open>The adapters on each outcome of the wrapped computation\<close>

lemma catches_default: "catches catch_default x = issubclass (exc_class x) Exception"
  by (simp add: catch_default_def)

lemma Propagation_is_Exception: "issubclass Propagation Exception"
  by (simp add: issubclass_def)

lemma stop_Returns: "f a s = (Returns r, s') \<Longrightarrow> stop f a s = (Returns (Success r), s')"
  by (simp add: stop_def try_except_def py_bind_def py_return_def)

lemma stop_signal:
  "f a s = (Raises (new_Propagation e), s') \<Longrightarrow> stop f a s = (Returns (Error e), s')"
  by (simp add: stop_def try_except_def py_bind_def py_return_def new_Propagation_def get_err_def)

lemma stop_other:
  "f a s = (Raises x, s') \<Longrightarrow> \<not> issubclass (exc_class x) Propagation \<Longrightarrow>
     stop f a s = (Raises x, s')"
  by (simp add: stop_def try_except_def py_bind_def py_return_def)

lemma wrap_result_Returns:
  "f a s = (Returns x, s') \<Longrightarrow> wrap_result c f a s = (Returns (Success x), s')"
  by (simp add: wrap_result_def try_except_def py_bind_def py_return_def)

lemma wrap_result_caught:
  "f a s = (Raises e, s') \<Longrightarrow> catches c e \<Longrightarrow>
     wrap_result c f a s = (Returns (Error (PyExc e)), s')"
  by (simp add: wrap_result_def try_except_def py_bind_def py_return_def)

lemma wrap_result_passed:
  "f a s = (Raises e, s') \<Longrightarrow> \<not> catches c e \<Longrightarrow> wrap_result c f a s = (Raises e, s')"
  by (simp add: wrap_result_def try_except_def py_bind_def py_return_def)

lemma unwrap_result_Success:
  "g a s = (Returns (Success x), s') \<Longrightarrow> unwrap_result g a s = (Returns x, s')"
  by (simp add: unwrap_result_def py_bind_def py_return_def)

lemma unwrap_result_Exception:
  "g a s = (Returns (Error (PyExc e)), s') \<Longrightarrow> issubclass (exc_class e) Exception \<Longrightarrow>
     unwrap_result g a s = (Raises e, s')"
  by (simp add: unwrap_result_def py_bind_def py_return_def py_raise_def)

lemma unwrap_result_other:
  "g a s = (Returns (Error v), s') \<Longrightarrow> \<not> isinstance v Exception \<Longrightarrow>
     unwrap_result g a s = (Raises (new_ErrorWrapper v), s')"
  by (simp add: unwrap_result_def py_bind_def py_return_def py_raise_def)

lemma unwrap_result_Raises:
  "g a s = (Raises x, s') \<Longrightarrow> unwrap_result g a s = (Raises x, s')"
  by (simp add: unwrap_result_def py_bind_def)

lemma unwrap_wrap_inverse: "unwrap_result (wrap_result catch_default f) a s = f a s"
proof (cases "f a s")
  case (Pair out s')
  show ?thesis
  proof (cases out)
    case (Returns x)
    with Pair have "f a s = (Returns x, s')" by simp
    then show ?thesis by (simp add: wrap_result_Returns unwrap_result_Success)
  next
    case (Raises e)
    with Pair have r: "f a s = (Raises e, s')" by simp
    show ?thesis
    proof (cases "issubclass (exc_class e) Exception")
      case True
      then have "wrap_result catch_default f a s = (Returns (Error (PyExc e)), s')"
        using r by (simp add: wrap_result_caught catches_default)
      then show ?thesis using True r by (simp add: unwrap_result_Exception)
    next
      case False
      then have "wrap_result catch_default f a s = (Raises e, s')"
        using r by (simp add: wrap_result_passed catches_default)
      then show ?thesis using r by (simp add: unwrap_result_Raises)
    qed
  qed
qed

lemma unwrap_cause_Exception:
  "issubclass (exc_class x) Exception \<Longrightarrow> unwrap_cause (PyExc x) = x"
  by (simp add: unwrap_cause_def)

lemma unwrap_cause_other:
  "\<not> isinstance e Exception \<Longrightarrow> unwrap_cause e = new_ErrorWrapper e"
  by (cases e) (simp_all add: unwrap_cause_def)

lemma unify_unwrap_cause: "unify_exn (pyadt_unwrap_cause e) = unify_exn (unwrap_cause e)"
  by (cases e)
    (simp_all add: pyadt_unwrap_cause_def unwrap_cause_def pyadt_new_ErrorWrapper_def
       new_ErrorWrapper_def)

lemma equiv_unwrap:
  "unify_outcome id (pyadt_unwrap r msg s) = unify_outcome id (unwrap (to_simple r) msg s)"
  by (cases r)
    (simp_all add: py_raise_def py_return_def pyadt_new_UnwrapError_def new_UnwrapError_def
       unify_unwrap_cause)

lemma equiv_unwrap_err:
  "unify_outcome id (pyadt_unwrap_err r msg s)
     = unify_outcome id (unwrap_err (to_simple r) msg s)"
  by (cases r)
    (simp_all add: py_raise_def py_return_def pyadt_new_UnwrapError_def new_UnwrapError_def)

lemma equiv_map:
  "on_return to_simple (pyadt_map r f) s = map_res (to_simple r) f s"
  by (cases r)
    (simp_all add: on_return_def py_bind_def py_return_def split: prod.splits outcome.splits)

lemma equiv_map_err:
  "on_return to_simple (pyadt_map_err r f) s = map_err (to_simple r) f s"
  by (cases r)
    (simp_all add: on_return_def py_bind_def py_return_def split: prod.splits outcome.splits)

lemma equiv_and_then:
  "on_return to_simple (pyadt_and_then r cb) s
     = and_then (to_simple r) (\<lambda>v. on_return to_simple (cb v)) s"
  by (cases r) (simp_all add: on_return_def)

lemma equiv_or_else:
  "on_return to_simple (pyadt_or_else r cb) s
     = or_else (to_simple r) (\<lambda>v. on_return to_simple (cb v)) s"
  by (cases r) (simp_all add: on_return_def)

lemma equiv_wrap_result:
  "on_return to_simple (pyadt_wrap_result c f a) s = wrap_result c f a s"
  by (simp add: on_return_def pyadt_wrap_result_def wrap_result_def try_except_def py_bind_def
        py_return_def split: prod.splits outcome.splits)

lemma equiv_unwrap_result:
  "unify_outcome id (pyadt_unwrap_result g a s)
     = unify_outcome id (unwrap_result (\<lambda>a. on_return to_simple (g a)) a s)"
proof (cases "g a s")
  case (Pair out s')
  show ?thesis
  proof (cases out)
    case (Raises x)
    with Pair show ?thesis
      by (simp add: pyadt_unwrap_result_def unwrap_result_def on_return_def py_bind_def)
  next
    case (Returns r)
    with Pair show ?thesis
      by (cases r)
        (simp_all add: pyadt_unwrap_result_def unwrap_result_def on_return_def py_bind_def
           py_return_def py_raise_def pyadt_new_ErrorWrapper_def new_ErrorWrapper_def)
  qed
qed

section \<open>The combinators\<close>

text \<open>
  Claim C1. Every combinator short-circuits on the variant it is not named for and passes
  that variant through unchanged. For every \<open>v\<close>, \<open>e\<close> and callback: \<open>Success(v).map(f)\<close> is
  \<open>Success(f(v))\<close> (for a callback that only computes \<open>p\<close>, and in general with the effects
  and the exceptions of \<open>f\<close>), \<open>Error(e).map(f)\<close> is \<open>Error(e)\<close>; \<open>Success(v).and_then(g)\<close>
  is \<open>g(v)\<close>, \<open>Error(e).and_then(g)\<close> is \<open>Error(e)\<close>; dually \<open>Error(e).map_err(h)\<close> is
  \<open>Error(h(e))\<close>, \<open>Success(v).map_err(h)\<close> is \<open>Success(v)\<close>, \<open>Error(e).or_else(k)\<close> is
  \<open>k(e)\<close> and \<open>Success(v).or_else(k)\<close> is \<open>Success(v)\<close>. On the passing side the callback is
  never invoked: the call returns in the state it started in, whatever the callback would
  do to the state and whether or not it would raise.
\<close>

theorem combinators_short_circuit:
  "map_res (Success v) (\<lambda>x. py_return (p x)) s = (Returns (Success (p v)), s)
   \<and> map_res (Success v) f s =
       (case f v s of (Returns u, s') \<Rightarrow> (Returns (Success u), s')
                    | (Raises x, s') \<Rightarrow> (Raises x, s'))
   \<and> map_res (Error e) f s = (Returns (Error e), s)
   \<and> and_then (Success v) g s = g v s
   \<and> and_then (Error e) g s = (Returns (Error e), s)
   \<and> map_err (Error e) (\<lambda>x. py_return (q x)) s = (Returns (Error (q e)), s)
   \<and> map_err (Error e) h s =
       (case h e s of (Returns u, s') \<Rightarrow> (Returns (Error u), s')
                    | (Raises x, s') \<Rightarrow> (Raises x, s'))
   \<and> map_err (Success v) h s = (Returns (Success v), s)
   \<and> or_else (Error e) k s = k e s
   \<and> or_else (Success v) k s = (Returns (Success v), s)"
  by (simp add: py_bind_def py_return_def split: prod.splits outcome.splits)

text \<open>
  With a counter as the state and a callback that increments it: \<open>Error('bad').map(f)\<close>
  leaves the counter at 0, \<open>Success(3).map(f)\<close> is \<open>Success(4)\<close> with the counter at 1, and
  \<open>Success(3).and_then(lambda x: Success(x*2))\<close> is \<open>Success(6)\<close>.
\<close>

theorem combinators_short_circuit_witness:
  "map_res (Error (PyStr ''bad'')) (\<lambda>x n. (Returns (x + 1), Suc n)) (0::nat)
     = (Returns (Error (PyStr ''bad'') :: (int, pyval) result), 0)
   \<and> map_res (Success (3::int)) (\<lambda>x n. (Returns (x + 1), Suc n)) (0::nat)
     = (Returns (Success 4 :: (int, pyval) result), 1)
   \<and> and_then (Success (3::int)) (\<lambda>x. py_return (Success (x * 2))) (0::nat)
     = (Returns (Success 6 :: (int, pyval) result), 0)"
  using combinators_short_circuit
    [where v = "3::int" and s = "0::nat" and e = "PyStr ''bad''"
       and f = "\<lambda>x n. (Returns (x + 1), Suc n)"
       and g = "\<lambda>x. py_return (Success (x * 2) :: (int, pyval) result)"]
  by (simp add: py_return_def py_bind_def)

section \<open>Inspection and projection\<close>

text \<open>
  Claim C3. For every \<open>v\<close> and \<open>x\<close>: \<open>Success(v).is_ok()\<close> is true, \<open>Success(v).is_err()\<close> is
  false, \<open>Success(v).unwrap()\<close> returns \<open>v\<close> (with any message argument),
  \<open>Success(v).unwrap_or(x)\<close> is \<open>v\<close>, and \<open>Success(v)\<close> is truthy. For every \<open>e\<close> and \<open>x\<close>:
  \<open>Error(e).is_err()\<close> is true, \<open>Error(e).is_ok()\<close> is false, \<open>Error(e).unwrap_err()\<close>
  returns \<open>e\<close>, \<open>Error(e).unwrap_or(x)\<close> is \<open>x\<close>, and \<open>Error(e)\<close> is falsy.
\<close>

theorem inspection_laws:
  "is_ok (Success v) \<and> \<not> is_err (Success v)
   \<and> unwrap (Success v) msg s = (Returns v, s)
   \<and> unwrap_or (Success v) x = v
   \<and> truthy (Success v)
   \<and> is_err (Error e) \<and> \<not> is_ok (Error e)
   \<and> unwrap_err (Error e) msg s = (Returns e, s)
   \<and> unwrap_or (Error e) x = x
   \<and> \<not> truthy (Error e)"
  by (simp add: py_return_def)

text \<open>
  Claim C5. For every Result \<open>r\<close>, exactly one of \<open>r.ok()\<close> and \<open>r.err()\<close> is present and
  the other is absent: \<open>Success(v).ok()\<close> is present(v) and \<open>Success(v).err()\<close> is absent;
  \<open>Error(e).err()\<close> is present(e) and \<open>Error(e).ok()\<close> is absent.
\<close>

theorem ok_err_duality:
  "(ok r = Nothing) \<noteq> (err r = Nothing)
   \<and> ok (Success v) = Something v \<and> err (Success v) = Nothing
   \<and> err (Error e) = Something e \<and> ok (Error e) = Nothing"
  by (cases r) simp_all

section \<open>The messages of the two unwrap operations\<close>

text \<open>
  Claim C10. The two unwrap operations treat an explicitly supplied empty message
  differently. \<open>Error(e).unwrap('')\<close> raises an \<open>UnwrapError\<close> that carries the default
  message \<open>Attempted to unwrap an Error\<close>, exactly as with no message: the code tests the
  truthiness of \<open>msg\<close>. \<open>Success(v).unwrap_err('')\<close> raises an \<open>UnwrapError\<close> that carries the
  empty string: the code substitutes its default only when \<open>msg\<close> is \<open>None\<close>.
\<close>

theorem empty_message_asymmetry:
  "unwrap (Error e) (Some '''') s =
     (Raises (new_UnwrapError ''Attempted to unwrap an Error'' (Some (unwrap_cause e))), s)
   \<and> unwrap (Error e) None s = unwrap (Error e) (Some '''') s
   \<and> exc_args (new_UnwrapError ''Attempted to unwrap an Error'' (Some (unwrap_cause e)))
       = [PyStr ''Attempted to unwrap an Error'']
   \<and> unwrap_err (Success v) (Some '''') s = (Raises (new_UnwrapError '''' None), s)
   \<and> exc_args (new_UnwrapError '''' None) = [PyStr '''']
   \<and> unwrap_err (Success v) None s =
       (Raises (new_UnwrapError ''Attempted to unwrap the error from a Success'' None), s)
   \<and> exc_class (new_UnwrapError m c) = UnwrapError"
  by (simp add: py_raise_def new_UnwrapError_def)

section \<open>Propagation and the \<open>stop\<close> boundary\<close>

text \<open>
  Claim C2, as amended. For a computation \<open>f\<close> wrapped by \<open>stop\<close>: if \<open>f\<close> completes normally
  with value \<open>r\<close>, the wrapped call returns \<open>Success(r)\<close>. If the signal raised by
  \<open>propagate()\<close> on \<open>Error(e)\<close> leaves \<open>f\<close>, that is, no handler between the call and the
  boundary catches it, the boundary returns \<open>Error(e)\<close>; in particular when \<open>f\<close> runs some
  code \<open>pre\<close>, calls \<open>propagate()\<close> on \<open>Error(e)\<close> and would then continue with \<open>rest\<close>, the
  call returns \<open>Error(e)\<close> in the state \<open>pre\<close> left, so \<open>rest\<close> is not executed. \<open>propagate()\<close>
  on \<open>Success(v)\<close> returns \<open>v\<close> and execution continues with the code after the call. \<open>stop\<close>
  intercepts only exceptions of class \<open>Propagation\<close>: any other exception of \<open>f\<close> passes
  through unaltered.
\<close>

theorem stop_contract:
  "(f a s = (Returns r, s') \<longrightarrow> stop f a s = (Returns (Success r), s'))
   \<and> (f a s = (Raises (new_Propagation e), s') \<longrightarrow> stop f a s = (Returns (Error e), s'))
   \<and> (pre a s = (Returns y, s1) \<longrightarrow>
        stop (\<lambda>a. py_bind (pre a) (\<lambda>y. py_bind (propagate (Error e)) (rest y))) a s
          = (Returns (Error e), s1))
   \<and> py_bind (propagate (Error e)) k s = (Raises (new_Propagation e), s)
   \<and> propagate (Success v) s = (Returns v, s)
   \<and> py_bind (propagate (Success v)) k s = k v s
   \<and> (f a s = (Raises x, s') \<and> \<not> issubclass (exc_class x) Propagation \<longrightarrow>
        stop f a s = (Raises x, s'))"
proof (intro conjI impI)
  assume "f a s = (Returns r, s')"
  then show "stop f a s = (Returns (Success r), s')" by (rule stop_Returns)
next
  assume "f a s = (Raises (new_Propagation e), s')"
  then show "stop f a s = (Returns (Error e), s')" by (rule stop_signal)
next
  assume p: "pre a s = (Returns y, s1)"
  have "py_bind (pre a) (\<lambda>y. py_bind (propagate (Error e)) (rest y)) s
          = (Raises (new_Propagation e), s1)"
    using p by (simp add: py_bind_Returns)
  then show "stop (\<lambda>a. py_bind (pre a) (\<lambda>y. py_bind (propagate (Error e)) (rest y))) a s
          = (Returns (Error e), s1)"
    by (rule stop_signal)
next
  show "py_bind (propagate (Error e)) k s = (Raises (new_Propagation e), s)" by simp
next
  show "propagate (Success v) s = (Returns v, s)" by (simp add: py_return_def)
next
  show "py_bind (propagate (Success v)) k s = k v s" by simp
next
  assume "f a s = (Raises x, s') \<and> \<not> issubclass (exc_class x) Propagation"
  then show "stop f a s = (Raises x, s')" by (simp add: stop_other)
qed

text \<open>
  The cases of the boundary's contract at concrete computations whose state counts the
  statements executed: a body that returns, a body that propagates \<open>Error(5)\<close> after one
  statement and before a marker worth 100, a body that raises the signal directly, a
  \<open>propagate()\<close> on \<open>Success(7)\<close> followed by the marker, a body that raises a
  \<open>ValueError\<close>, and the function \<open>func\<close> of the docstring of \<open>Result.propagate\<close>, for which
  the docstring shows \<open>Error(5)\<close>.
\<close>

theorem stop_contract_witness:
  "stop (\<lambda>a n. (Returns (a + 1), Suc n)) (2::int) (0::nat) = (Returns (Success 3), 1)
   \<and> stop (\<lambda>a. py_bind (\<lambda>n. (Returns a, Suc n))
                (\<lambda>x. py_bind (propagate (Error (PyInt 5)))
                   (\<lambda>v n. (Returns (v + x), n + 100)))) (2::int) (0::nat)
       = (Returns (Error (PyInt 5)), 1)
   \<and> stop (\<lambda>a. py_raise (new_Propagation (PyInt 5))) (2::int) (0::nat)
       = (Returns (Error (PyInt 5) :: (int, pyval) result), 0)
   \<and> py_bind (propagate (Success (7::int))) (\<lambda>v n. (Returns (v + 2), n + 100)) (0::nat)
       = (Returns 9, 100)
   \<and> stop (\<lambda>a. py_raise (Exn ValueError [PyStr ''bad''] None None)) (2::int) (0::nat)
       = (Raises (Exn ValueError [PyStr ''bad''] None None) :: (int, pyval) result outcome, 0)
   \<and> stop (\<lambda>a. py_bind (propagate (Error (PyInt 5) :: (string, pyval) result))
                (\<lambda>x. py_return (x = ''foo''))) () (0::nat)
       = (Returns (Error (PyInt 5)), 0)"
proof -
  have w1: "stop (\<lambda>a n. (Returns (a + 1), Suc n)) (2::int) (0::nat) = (Returns (Success 3), 1)"
    using stop_contract [where f = "\<lambda>a n. (Returns (a + 1), Suc n)"
        and a = "2::int" and s = "0::nat" and r = "3::int" and s' = "1::nat",
        THEN conjunct1]
    by simp
  have w2: "stop (\<lambda>a. py_raise (new_Propagation (PyInt 5))) (2::int) (0::nat)
       = (Returns (Error (PyInt 5) :: (int, pyval) result), 0)"
    using stop_contract [where f = "\<lambda>a. py_raise (new_Propagation (PyInt 5))"
        and a = "2::int" and s = "0::nat" and e = "PyInt 5" and s' = "0::nat",
        THEN conjunct2, THEN conjunct1]
    by (simp add: py_raise_def)
  have w3: "stop (\<lambda>a. py_bind (\<lambda>n. (Returns a, Suc n))
                (\<lambda>x. py_bind (propagate (Error (PyInt 5)))
                   (\<lambda>v n. (Returns (v + x), n + 100)))) (2::int) (0::nat)
       = (Returns (Error (PyInt 5)), 1)"
    using stop_contract [where pre = "\<lambda>a n. (Returns a, Suc n)" and a = "2::int"
        and s = "0::nat" and y = "2::int" and ?s1.0 = "1::nat" and e = "PyInt 5"
        and rest = "\<lambda>x v n. (Returns (v + x), n + 100)",
        THEN conjunct2, THEN conjunct2, THEN conjunct1]
    by simp
  have w6: "py_bind (propagate (Success (7::int))) (\<lambda>v n. (Returns (v + 2), n + 100)) (0::nat)
       = (Returns 9, 100)"
    using stop_contract [where v = "7::int" and k = "\<lambda>v n. (Returns (v + 2), n + 100)"
        and s = "0::nat",
        THEN conjunct2, THEN conjunct2, THEN conjunct2, THEN conjunct2, THEN conjunct2,
        THEN conjunct1]
    by simp
  have w7: "stop (\<lambda>a. py_raise (Exn ValueError [PyStr ''bad''] None None)) (2::int) (0::nat)
       = (Raises (Exn ValueError [PyStr ''bad''] None None) :: (int, pyval) result outcome, 0)"
    using stop_contract [where f = "\<lambda>a. py_raise (Exn ValueError [PyStr ''bad''] None None)"
        and a = "2::int" and s = "0::nat" and s' = "0::nat"
        and x = "Exn ValueError [PyStr ''bad''] None None",
        THEN conjunct2, THEN conjunct2, THEN conjunct2, THEN conjunct2, THEN conjunct2,
        THEN conjunct2]
    by (simp add: py_raise_def issubclass_def)
  have w8: "stop (\<lambda>a. py_bind (propagate (Error (PyInt 5) :: (string, pyval) result))
                (\<lambda>x. py_return (x = ''foo''))) () (0::nat)
       = (Returns (Error (PyInt 5)), 0)"
    using stop_contract
      [where f = "\<lambda>a. py_bind (propagate (Error (PyInt 5) :: (string, pyval) result))
                (\<lambda>x. py_return (x = ''foo''))"
        and a = "()" and s = "0::nat" and e = "PyInt 5" and s' = "0::nat",
        THEN conjunct2, THEN conjunct1]
    by simp
  show ?thesis
    using w1 w2 w3 w6 w7 w8 by simp
qed

text \<open>
  Claim C2 as stated fails when a handler stands between the call of \<open>propagate()\<close> and the
  boundary. Here \<open>f\<close> calls a function wrapped by \<open>wrap_result()\<close> that propagates
  \<open>Error(5)\<close>, then executes one more statement and returns 1: the boundary returns
  \<open>Success(1)\<close> and not \<open>Error(5)\<close>, and the statement after the call has been executed.
\<close>

theorem stop_intervening_handler_counterexample:
  "stop (\<lambda>a. py_bind
            (wrap_result catch_default
               (\<lambda>b. propagate (Error (PyInt 5) :: (int, pyval) result)) a)
            (\<lambda>r n. (Returns (1::int), Suc n))) () (0::nat)
     = (Returns (Success 1), 1)
   \<and> stop (\<lambda>a. py_bind
            (wrap_result catch_default
               (\<lambda>b. propagate (Error (PyInt 5) :: (int, pyval) result)) a)
            (\<lambda>r n. (Returns (1::int), Suc n))) () (0::nat)
     \<noteq> (Returns (Error (PyInt 5)), 0)"
  by (simp add: stop_def wrap_result_def catch_default_def try_except_def py_bind_def
        py_return_def py_raise_def new_Propagation_def issubclass_def)

text \<open>
  Claim C9. \<open>Propagation\<close> is a subclass of \<open>Exception\<close>, so a \<open>wrap_result\<close> boundary with
  the default catch set that lies between a \<open>propagate()\<close> call and its intended \<open>stop\<close>
  boundary intercepts the signal and converts it into \<open>Error(<the Propagation instance>)\<close>:
  the \<open>stop\<close> boundary then sees only what the code after the \<open>wrap_result\<close> call does with
  that value, and a \<open>stop\<close> placed directly around the wrapped function returns it inside a
  \<open>Success\<close>.
\<close>

theorem wrap_result_intercepts_propagation:
  "issubclass Propagation Exception
   \<and> exc_class (new_Propagation e) = Propagation
   \<and> catches catch_default (new_Propagation e)
   \<and> (g a s = (Raises (new_Propagation e), s') \<longrightarrow>
        wrap_result catch_default g a s = (Returns (Error (PyExc (new_Propagation e))), s'))
   \<and> (g a s = (Raises (new_Propagation e), s') \<longrightarrow>
        stop (\<lambda>a. py_bind (wrap_result catch_default g a) cont) a s
          = stop (\<lambda>a. cont (Error (PyExc (new_Propagation e)))) a s')
   \<and> stop (wrap_result catch_default (\<lambda>a. py_bind (propagate (Error e)) k)) a s
        = (Returns (Success (Error (PyExc (new_Propagation e)))), s)"
proof (intro conjI impI)
  show "issubclass Propagation Exception" by (rule Propagation_is_Exception)
  show "exc_class (new_Propagation e) = Propagation" by (simp add: new_Propagation_def)
  show c: "catches catch_default (new_Propagation e)"
    by (simp add: catches_default new_Propagation_def Propagation_is_Exception)
  {
    assume g: "g a s = (Raises (new_Propagation e), s')"
    show w: "wrap_result catch_default g a s = (Returns (Error (PyExc (new_Propagation e))), s')"
      using g c by (rule wrap_result_caught)
    show "stop (\<lambda>a. py_bind (wrap_result catch_default g a) cont) a s
          = stop (\<lambda>a. cont (Error (PyExc (new_Propagation e)))) a s'"
      using w by (simp add: stop_def try_except_def py_bind_def)
  }
  have "wrap_result catch_default (\<lambda>a. py_bind (propagate (Error e)) k) a s
          = (Returns (Error (PyExc (new_Propagation e))), s)"
    using c by (simp add: wrap_result_caught)
  then show "stop (wrap_result catch_default (\<lambda>a. py_bind (propagate (Error e)) k)) a s
        = (Returns (Success (Error (PyExc (new_Propagation e)))), s)"
    by (rule stop_Returns)
qed

text \<open>The interception at a function that propagates \<open>Error(5)\<close>: the \<open>stop\<close> boundary
  around the caller returns \<open>Success(True)\<close>, the caller having seen an Error.\<close>

theorem wrap_result_intercepts_propagation_witness:
  "wrap_result catch_default (\<lambda>a. propagate (Error (PyInt 5) :: (int, pyval) result)) () (0::nat)
     = (Returns (Error (PyExc (new_Propagation (PyInt 5)))), 0)
   \<and> stop (\<lambda>a. py_bind
         (wrap_result catch_default (\<lambda>a. propagate (Error (PyInt 5) :: (int, pyval) result)) a)
         (\<lambda>r. py_return (is_err r))) () (0::nat)
     = (Returns (Success True), 0)"
  using wrap_result_intercepts_propagation
    [where g = "\<lambda>a. propagate (Error (PyInt 5) :: (int, pyval) result)"
       and a = "()" and s = "0::nat" and s' = "0::nat" and e = "PyInt 5"
       and cont = "\<lambda>r. py_return (is_err r)" and k = "\<lambda>v. py_return (v::int)"]
  by (simp add: py_raise_def stop_Returns py_return_def)

section \<open>Failures of the unwrap operations\<close>

text \<open>
  Claim C4, as amended. For every \<open>v\<close>, \<open>Success(v).unwrap_err()\<close> raises an \<open>UnwrapError\<close>;
  for every \<open>e\<close>, \<open>Error(e).unwrap()\<close> raises an \<open>UnwrapError\<close> whose cause is \<open>e\<close> itself
  when \<open>e\<close> is an instance of \<open>Exception\<close> and \<open>ErrorWrapper(e)\<close> otherwise. Apart from
  \<open>propagate()\<close>, which on \<open>Error(e)\<close> raises the \<open>Propagation\<close> signal, no other Result
  operation raises on the variant it is not named for: \<open>map\<close>, \<open>map_or\<close> and \<open>and_then\<close> on
  an Error and \<open>map_err\<close> and \<open>or_else\<close> on a Success return without running the callback,
  \<open>unwrap_or_else\<close> and \<open>map_or_else\<close> on an Error do exactly what the fallback they are
  given does (\<open>unwrap_or\<close>, \<open>ok\<close>, \<open>err\<close>, \<open>is_ok\<close>, \<open>is_err\<close> have no failing path at
  all). The kind raised by the two unwrap operations is always \<open>UnwrapError\<close>.
\<close>

theorem unwrap_failures:
  "(\<exists>x. unwrap_err (Success v) msg s = (Raises x, s) \<and> exc_class x = UnwrapError)
   \<and> (\<exists>x. unwrap (Error e) msg s = (Raises x, s) \<and> exc_class x = UnwrapError)
   \<and> (issubclass (exc_class d) Exception \<longrightarrow>
        unwrap (Error (PyExc d)) msg s =
          (Raises (new_UnwrapError (str_or msg ''Attempted to unwrap an Error'') (Some d)), s))
   \<and> (\<not> isinstance e Exception \<longrightarrow>
        unwrap (Error e) msg s =
          (Raises (new_UnwrapError (str_or msg ''Attempted to unwrap an Error'')
                     (Some (new_ErrorWrapper e))), s))
   \<and> exc_class (new_ErrorWrapper e) = ErrorWrapper \<and> exc_args (new_ErrorWrapper e) = [e]
   \<and> unwrap_or_else (Error e) thunk s = thunk s
   \<and> map_res (Error e) f s = (Returns (Error e), s)
   \<and> map_err (Success v) h s = (Returns (Success v), s)
   \<and> map_or (Error e) dflt f s = (Returns dflt, s)
   \<and> map_or_else (Error e) thunk' f s = thunk' s
   \<and> and_then (Error e) g s = (Returns (Error e), s)
   \<and> or_else (Success v) k s = (Returns (Success v), s)
   \<and> propagate (Error e) s = (Raises (new_Propagation e), s)
   \<and> exc_class (new_Propagation e) = Propagation"
  by (simp add: py_raise_def py_return_def new_UnwrapError_def new_ErrorWrapper_def
        new_Propagation_def unwrap_cause_Exception unwrap_cause_other)

text \<open>The two cases of the cause: a \<open>ValueError\<close> held by the Error, and the integer 5.\<close>

theorem unwrap_failures_witness:
  "unwrap (Error (PyExc (Exn ValueError [PyStr ''bad''] None None)) :: (int, pyval) result)
       None ()
     = (Raises (new_UnwrapError ''Attempted to unwrap an Error''
                  (Some (Exn ValueError [PyStr ''bad''] None None))), ())
   \<and> unwrap (Error (PyInt 5) :: (int, pyval) result) (Some ''no value'') ()
     = (Raises (new_UnwrapError ''no value'' (Some (new_ErrorWrapper (PyInt 5)))), ())"
proof -
  have w3: "unwrap (Error (PyExc (Exn ValueError [PyStr ''bad''] None None)) :: (int, pyval) result)
       None ()
     = (Raises (new_UnwrapError ''Attempted to unwrap an Error''
                  (Some (Exn ValueError [PyStr ''bad''] None None))), ())"
    using unwrap_failures [where d = "Exn ValueError [PyStr ''bad''] None None"
        and msg = None and s = "()",
        THEN conjunct2, THEN conjunct2, THEN conjunct1]
    by (simp add: issubclass_def)
  have w4: "unwrap (Error (PyInt 5) :: (int, pyval) result) (Some ''no value'') ()
     = (Raises (new_UnwrapError ''no value'' (Some (new_ErrorWrapper (PyInt 5)))), ())"
    using unwrap_failures [where e = "PyInt 5" and msg = "Some ''no value''" and s = "()",
        THEN conjunct2, THEN conjunct2, THEN conjunct2, THEN conjunct1]
    by simp
  show ?thesis using w3 w4 by simp
qed

text \<open>
  Claim C4 as stated fails at \<open>propagate\<close>: \<open>Error(5).propagate()\<close> is a Result operation
  that raises on the Error variant, and what it raises is a \<open>Propagation\<close>, not an
  \<open>UnwrapError\<close>.
\<close>

theorem propagate_raises_counterexample:
  "propagate (Error (PyInt 5) :: (int, pyval) result) ()
     = (Raises (new_Propagation (PyInt 5)), ())
   \<and> exc_class (new_Propagation (PyInt 5)) \<noteq> UnwrapError"
  by (simp add: py_raise_def new_Propagation_def)

section \<open>The adapter decorators\<close>

text \<open>
  Claim C6, as amended. A computation \<open>f\<close> wrapped by \<open>wrap_result(catch)\<close>, invoked with any
  arguments: returns \<open>Success(x)\<close> if \<open>f\<close> returns \<open>x\<close>; returns \<open>Error(e)\<close> if \<open>f\<close> raises an
  \<open>e\<close> that matches \<open>catch\<close>; and lets \<open>e\<close> propagate unconverted if it does not match. The
  default catch set is \<open>Exception\<close>: it matches exactly the failures that are instances of
  \<open>Exception\<close>.
\<close>

theorem wrap_result_contract:
  "(f a s = (Returns x, s') \<longrightarrow> wrap_result c f a s = (Returns (Success x), s'))
   \<and> (f a s = (Raises e, s') \<and> catches c e \<longrightarrow>
        wrap_result c f a s = (Returns (Error (PyExc e)), s'))
   \<and> (f a s = (Raises e, s') \<and> \<not> catches c e \<longrightarrow> wrap_result c f a s = (Raises e, s'))
   \<and> catches catch_default e = issubclass (exc_class e) Exception"
  by (simp add: wrap_result_Returns wrap_result_caught wrap_result_passed catches_default)

text \<open>The three cases of the wrapper's contract: a function that returns, one that raises a
  \<open>ValueError\<close> under the default catch set, and the same under
  \<open>(TypeError, AttributeError)\<close>.\<close>

theorem wrap_result_contract_witness:
  "wrap_result catch_default (\<lambda>a n. (Returns (a + 1), Suc n)) (2::int) (0::nat)
     = (Returns (Success 3), 1)
   \<and> wrap_result catch_default
        (\<lambda>a. py_raise (Exn ValueError [PyStr ''bad''] None None)) (2::int) (0::nat)
     = (Returns (Error (PyExc (Exn ValueError [PyStr ''bad''] None None))
          :: (int, pyval) result), 0)
   \<and> wrap_result (ClassTuple [TypeError, AttributeError])
        (\<lambda>a. py_raise (Exn ValueError [PyStr ''bad''] None None)) (2::int) (0::nat)
     = (Raises (Exn ValueError [PyStr ''bad''] None None) :: (int, pyval) result outcome, 0)"
proof -
  have w1: "wrap_result catch_default (\<lambda>a n. (Returns (a + 1), Suc n)) (2::int) (0::nat)
     = (Returns (Success 3), 1)"
    using wrap_result_contract [where f = "\<lambda>a n. (Returns (a + 1), Suc n)" and a = "2::int"
        and s = "0::nat" and x = "3::int" and s' = "1::nat" and c = catch_default,
        THEN conjunct1]
    by simp
  have w2: "wrap_result catch_default
        (\<lambda>a. py_raise (Exn ValueError [PyStr ''bad''] None None)) (2::int) (0::nat)
     = (Returns (Error (PyExc (Exn ValueError [PyStr ''bad''] None None))
          :: (int, pyval) result), 0)"
    using wrap_result_contract
      [where f = "\<lambda>a. py_raise (Exn ValueError [PyStr ''bad''] None None)" and a = "2::int"
        and s = "0::nat" and e = "Exn ValueError [PyStr ''bad''] None None" and s' = "0::nat"
        and c = catch_default,
        THEN conjunct2, THEN conjunct1]
    by (simp add: py_raise_def catch_default_def issubclass_def)
  have w3: "wrap_result (ClassTuple [TypeError, AttributeError])
        (\<lambda>a. py_raise (Exn ValueError [PyStr ''bad''] None None)) (2::int) (0::nat)
     = (Raises (Exn ValueError [PyStr ''bad''] None None) :: (int, pyval) result outcome, 0)"
    using wrap_result_contract
      [where f = "\<lambda>a. py_raise (Exn ValueError [PyStr ''bad''] None None)" and a = "2::int"
        and s = "0::nat" and e = "Exn ValueError [PyStr ''bad''] None None" and s' = "0::nat"
        and c = "ClassTuple [TypeError, AttributeError]",
        THEN conjunct2, THEN conjunct2, THEN conjunct1]
    by (simp add: py_raise_def issubclass_def)
  show ?thesis using w1 w2 w3 by simp
qed

text \<open>
  Claim C6 as stated fails in its last part: the default catch set does not match a
  \<open>KeyboardInterrupt\<close>, which derives from \<open>BaseException\<close> only, and the wrapped call
  lets it propagate.
\<close>

theorem wrap_result_default_counterexample:
  "\<not> catches catch_default (Exn KeyboardInterrupt [] None None)
   \<and> wrap_result catch_default (\<lambda>a. py_raise (Exn KeyboardInterrupt [] None None)) () ()
       = (Raises (Exn KeyboardInterrupt [] None None) :: (int, pyval) result outcome, ())"
  by (simp add: wrap_result_def catch_default_def try_except_def py_bind_def py_raise_def
        issubclass_def)

text \<open>
  Claim C7. A Result-returning computation \<open>g\<close> wrapped by \<open>unwrap_result\<close>, invoked with any
  arguments: returns \<open>x\<close> if \<open>g\<close> returns \<open>Success(x)\<close>; raises \<open>e\<close> itself if \<open>g\<close> returns
  \<open>Error(e)\<close> with \<open>e\<close> an instance of \<open>Exception\<close>; raises \<open>ErrorWrapper(e)\<close> if \<open>g\<close>
  returns \<open>Error(e)\<close> with \<open>e\<close> not such an instance. It is the inverse of \<open>wrap_result\<close>:
  \<open>unwrap_result(wrap_result()(f))\<close> behaves as \<open>f\<close> does, in result, exception and effect.
\<close>

theorem unwrap_result_contract:
  "(g a s = (Returns (Success x), s') \<longrightarrow> unwrap_result g a s = (Returns x, s'))
   \<and> (g a s = (Returns (Error (PyExc e)), s') \<and> issubclass (exc_class e) Exception \<longrightarrow>
        unwrap_result g a s = (Raises e, s'))
   \<and> (g a s = (Returns (Error v), s') \<and> \<not> isinstance v Exception \<longrightarrow>
        unwrap_result g a s = (Raises (new_ErrorWrapper v), s'))
   \<and> unwrap_result (wrap_result catch_default f) a s = f a s"
  by (simp add: unwrap_result_Success unwrap_result_Exception unwrap_result_other
        unwrap_wrap_inverse)

text \<open>The three cases of the unwrapping adapter: \<open>Success(a + 1)\<close>, an Error holding a
  \<open>ValueError\<close>, and an Error holding the integer 5.\<close>

theorem unwrap_result_contract_witness:
  "unwrap_result (\<lambda>a n. (Returns (Success (a + 1)), Suc n)) (2::int) (0::nat)
     = (Returns 3, 1)
   \<and> unwrap_result
        (\<lambda>a. py_return (Error (PyExc (Exn ValueError [PyStr ''bad''] None None))
                 :: (int, pyval) result)) (2::int) (0::nat)
     = (Raises (Exn ValueError [PyStr ''bad''] None None), 0)
   \<and> unwrap_result (\<lambda>a. py_return (Error (PyInt 5) :: (int, pyval) result)) (2::int) (0::nat)
     = (Raises (new_ErrorWrapper (PyInt 5)), 0)"
proof -
  have w1: "unwrap_result (\<lambda>a n. (Returns (Success (a + 1)), Suc n)) (2::int) (0::nat)
     = (Returns 3, 1)"
    using unwrap_result_contract [where g = "\<lambda>a n. (Returns (Success (a + 1)), Suc n)"
        and a = "2::int" and s = "0::nat" and x = "3::int" and s' = "1::nat",
        THEN conjunct1]
    by simp
  have w2: "unwrap_result
        (\<lambda>a. py_return (Error (PyExc (Exn ValueError [PyStr ''bad''] None None))
                 :: (int, pyval) result)) (2::int) (0::nat)
     = (Raises (Exn ValueError [PyStr ''bad''] None None), 0)"
    using unwrap_result_contract
      [where g = "\<lambda>a. py_return (Error (PyExc (Exn ValueError [PyStr ''bad''] None None))
                 :: (int, pyval) result)"
        and a = "2::int" and s = "0::nat" and e = "Exn ValueError [PyStr ''bad''] None None"
        and s' = "0::nat",
        THEN conjunct2, THEN conjunct1]
    by (simp add: py_return_def issubclass_def)
  have w3: "unwrap_result (\<lambda>a. py_return (Error (PyInt 5) :: (int, pyval) result))
        (2::int) (0::nat)
     = (Raises (new_ErrorWrapper (PyInt 5)), 0)"
    using unwrap_result_contract
      [where g = "\<lambda>a. py_return (Error (PyInt 5) :: (int, pyval) result)"
        and a = "2::int" and s = "0::nat" and v = "PyInt 5" and s' = "0::nat",
        THEN conjunct2, THEN conjunct2, THEN conjunct1]
    by (simp add: py_return_def)
  show ?thesis using w1 w2 w3 by simp
qed

section \<open>Equivalence of the two modules\<close>

text \<open>
  Claim C8. The modules \<open>pyadt.result\<close> and \<open>simple_monads.result\<close> are observationally
  equivalent on their shared surface. On corresponding Results (\<open>to_simple\<close>) and the same
  further arguments, each of \<open>is_ok\<close>, \<open>is_err\<close>, truthiness, \<open>unwrap\<close>, \<open>unwrap_or\<close>,
  \<open>unwrap_or_else\<close>, \<open>unwrap_err\<close>, \<open>map\<close>, \<open>map_err\<close>, \<open>map_or\<close>, \<open>map_or_else\<close>,
  \<open>and_then\<close>, \<open>or_else\<close>, \<open>ok\<close>, \<open>err\<close>, \<open>wrap_result\<close> and \<open>unwrap_result\<close> ends in the
  same state and returns the same value (corresponding Results where it returns one) or
  raises the same exception, up to the module that declares \<open>UnwrapError\<close> and
  \<open>ErrorWrapper\<close>.
\<close>

theorem modules_equivalent:
  "pyadt_is_ok r = is_ok (to_simple r)
   \<and> pyadt_is_err r = is_err (to_simple r)
   \<and> pyadt_truthy r = truthy (to_simple r)
   \<and> unify_outcome id (pyadt_unwrap rp msg s) = unify_outcome id (unwrap (to_simple rp) msg s)
   \<and> pyadt_unwrap_or r x = unwrap_or (to_simple r) x
   \<and> pyadt_unwrap_or_else r thunk s = unwrap_or_else (to_simple r) thunk s
   \<and> unify_outcome id (pyadt_unwrap_err r msg s)
       = unify_outcome id (unwrap_err (to_simple r) msg s)
   \<and> on_return to_simple (pyadt_map r f) s = map_res (to_simple r) f s
   \<and> on_return to_simple (pyadt_map_err r h) s = map_err (to_simple r) h s
   \<and> pyadt_map_or r dflt f' s = map_or (to_simple r) dflt f' s
   \<and> pyadt_map_or_else r thunk' f' s = map_or_else (to_simple r) thunk' f' s
   \<and> on_return to_simple (pyadt_and_then r cb) s
       = and_then (to_simple r) (\<lambda>v. on_return to_simple (cb v)) s
   \<and> on_return to_simple (pyadt_or_else r cb') s
       = or_else (to_simple r) (\<lambda>v. on_return to_simple (cb' v)) s
   \<and> pyadt_ok r = ok (to_simple r)
   \<and> pyadt_err r = err (to_simple r)
   \<and> on_return to_simple (pyadt_wrap_result c k a) s = wrap_result c k a s
   \<and> unify_outcome id (pyadt_unwrap_result g a s)
       = unify_outcome id (unwrap_result (\<lambda>a. on_return to_simple (g a)) a s)"
proof -
  have pure: "pyadt_is_ok r = is_ok (to_simple r) \<and> pyadt_is_err r = is_err (to_simple r)
      \<and> pyadt_truthy r = truthy (to_simple r) \<and> pyadt_unwrap_or r x = unwrap_or (to_simple r) x
      \<and> pyadt_ok r = ok (to_simple r) \<and> pyadt_err r = err (to_simple r)"
    by (cases r) simp_all
  have fallbacks: "pyadt_unwrap_or_else r thunk s = unwrap_or_else (to_simple r) thunk s
      \<and> pyadt_map_or r dflt f' s = map_or (to_simple r) dflt f' s
      \<and> pyadt_map_or_else r thunk' f' s = map_or_else (to_simple r) thunk' f' s"
    by (cases r) simp_all
  show ?thesis
    using pure fallbacks
    by (simp add: equiv_unwrap equiv_unwrap_err equiv_map equiv_map_err equiv_and_then
          equiv_or_else equiv_wrap_result equiv_unwrap_result)
qed

end
